theory Spec2Isabelle
  imports Complex_Main "HOL-Library.Word"
begin

unbundle bit_operations_syntax

section \<open>The search tree of mcts/node.cc\<close>

text \<open>
  The theory embeds the node and tree operations of \<^verbatim>\<open>src/mcts/node.cc\<close>.
  The header \<^verbatim>\<open>mcts/node.h\<close> (field declarations, constructors, iterators) and the
  chess headers are not part of the sources at hand, so what node.cc takes from them is
  either a parameter of the model or a definition marked as modelled from the
  specification.

  Conventions of the embedding:
  \<^item> \<^verbatim>\<open>float\<close> values are real numbers: arithmetic on them is exact. A division by zero
    does not stop the program: IEEE-754 answers it with NaN or an infinity, which no
    real number stands for, so a quotient is a value of \<open>error + real\<close> and the quotient
    by zero is \<open>Inl DivisionByZero\<close>;
  \<^item> \<^verbatim>\<open>assert\<close> is fatal: a failed assertion is the result \<open>Inl AssertionFailed\<close>;
  \<^item> a \<^verbatim>\<open>std::unique_ptr<Node>\<close> owns its target exclusively, so the target is a
    component of the owner: \<open>Node option\<close>, with \<open>None\<close> for the empty pointer;
  \<^item> a plain \<^verbatim>\<open>Node*\<close> is the address of a node, \<open>addr option\<close>, with \<open>None\<close> for
    \<^verbatim>\<open>nullptr\<close>.
\<close>

subsection \<open>Data\<close>

type_synonym addr = nat

text \<open>A move is an opaque integer identity; mirroring and the index into the policy
  head belong to the chess headers and are parameters wherever they are used.\<close>

type_synonym Move = nat

datatype error = AssertionFailed | NullDereference | OutOfRange | DivisionByZero

text \<open>The enumerators of \<^verbatim>\<open>GameResult\<close> that node.cc names.\<close>

datatype GameResult = WHITE_WON | DRAW | BLACK_WON

record Edge =
  GetMove :: Move
  GetP :: real

text \<open>
  The data members of a node other than its two owning pointers.

  Modelled from the spec: the declarations of the members are in node.h, which is
  missing. The specification gives \<open>n\<close> as a non-negative integer and \<open>n_in_flight\<close>
  as an integer that is meant to stay non-negative but that a wrong cancel can drive
  negative, hence \<open>nat\<close> and \<open>int\<close>, both unbounded. \<open>full_depth\<close> is exchanged with a
  \<^verbatim>\<open>uint16_t\<close> in \<^verbatim>\<open>UpdateFullDepth\<close> and is a 16-bit word; \<open>max_depth\<close> is compared with
  an \<^verbatim>\<open>int\<close>. An \<^verbatim>\<open>EdgeList\<close> is the list of its edges, and it tests as false exactly when
  it is empty. The non-owning back pointer \<^verbatim>\<open>parent_\<close> is not a field: the one method
  that follows it, \<^verbatim>\<open>FinalizeScoreUpdate\<close>, receives the node it points to.

  The members carry their source names without the trailing underscore; the one-letter
  members \<^verbatim>\<open>n_\<close>, \<^verbatim>\<open>q_\<close>, \<^verbatim>\<open>p_\<close> and the member \<^verbatim>\<open>move_\<close> are named after their accessors
  \<^verbatim>\<open>GetN\<close>, \<^verbatim>\<open>GetQ\<close>, \<^verbatim>\<open>GetP\<close> and \<^verbatim>\<open>GetMove\<close>.
\<close>

record NodeData =
  index :: nat
  edges :: "Edge list"
  GetQ :: real
  visited_policy :: real
  GetN :: nat
  n_in_flight :: int
  max_depth :: int
  full_depth :: "16 word"
  is_terminal :: bool

text \<open>A node: its address (the value of \<^verbatim>\<open>this\<close>), its data members, and the two owning
  pointers \<^verbatim>\<open>child_\<close> (first materialized child) and \<^verbatim>\<open>sibling_\<close> (next child of the
  same parent).\<close>

datatype Node = Node (this: addr) (dat: NodeData) (child: "Node option") (sibling: "Node option")

text \<open>Modelled from the spec: the constructor \<^verbatim>\<open>Node(parent, index)\<close> is in node.h. The
  specification gives the initial state: every counter and statistic zero, no edges, no
  child, no sibling, not terminal.\<close>

definition new_NodeData :: "nat \<Rightarrow> NodeData" where
  "new_NodeData i =
     \<lparr>index = i, edges = [], GetQ = 0, visited_policy = 0, GetN = 0, n_in_flight = 0,
      max_depth = 0, full_depth = 0, is_terminal = False\<rparr>"

definition new_Node :: "addr \<Rightarrow> nat \<Rightarrow> Node" where
  "new_Node a i = Node a (new_NodeData i) None None"

text \<open>\<^verbatim>\<open>EdgeList::EdgeList(MoveList moves)\<close>: one edge for each move, in order. The
  array is value-initialised, so every prior starts at zero.\<close>

definition EdgeList :: "Move list \<Rightarrow> Edge list" where
  "EdgeList moves = map (\<lambda>m. \<lparr>GetMove = m, GetP = 0\<rparr>) moves"

subsection \<open>The score update protocol\<close>

text \<open>\<^verbatim>\<open>bool Node::TryStartScoreUpdate()\<close>: the returned flag and the node afterwards.\<close>

definition TryStartScoreUpdate :: "NodeData \<Rightarrow> bool \<times> NodeData" where
  "TryStartScoreUpdate nd =
     (if GetN nd = 0 \<and> n_in_flight nd > 0 then (False, nd)
      else (True, nd\<lparr>n_in_flight := n_in_flight nd + 1\<rparr>))"

text \<open>\<^verbatim>\<open>void Node::CancelScoreUpdate()\<close>. No assertion guards the decrement, so there is
  no error branch.\<close>

definition CancelScoreUpdate :: "NodeData \<Rightarrow> error + NodeData" where
  "CancelScoreUpdate nd = Inr (nd\<lparr>n_in_flight := n_in_flight nd - 1\<rparr>)"

text \<open>
  \<^verbatim>\<open>void Node::FinalizeScoreUpdate(float v)\<close>. The method writes the receiver and, on
  the first visit, the node \<^verbatim>\<open>parent_\<close> points to; \<open>pr\<close> is that node (\<open>None\<close> when
  \<^verbatim>\<open>parent_ == nullptr\<close>), and both come back updated. Reading \<^verbatim>\<open>parent_->edges_\<close>
  beyond its size is undefined in the source and an error here.
\<close>

definition FinalizeScoreUpdate ::
  "real \<Rightarrow> NodeData option \<Rightarrow> NodeData \<Rightarrow> error + (NodeData option \<times> NodeData)" where
  "FinalizeScoreUpdate v pr nd =
     (let nd1 = nd\<lparr>GetQ := GetQ nd + (v - GetQ nd) / real (GetN nd + 1)\<rparr>;
          pr1 = (if GetN nd1 = 0 \<and> pr \<noteq> None then
                   (case pr of
                      None \<Rightarrow> Inl NullDereference
                    | Some pa \<Rightarrow>
                        if index nd1 < length (edges pa)
                        then Inr (Some (pa\<lparr>visited_policy :=
                                          visited_policy pa + GetP (edges pa ! index nd1)\<rparr>))
                        else Inl OutOfRange)
                 else Inr pr)
      in case pr1 of
           Inl e \<Rightarrow> Inl e
         | Inr pr2 \<Rightarrow>
             Inr (pr2, nd1\<lparr>GetN := GetN nd1 + 1, n_in_flight := n_in_flight nd1 - 1\<rparr>))"

text \<open>\<^verbatim>\<open>void Node::MakeTerminal(GameResult result)\<close>.\<close>

definition MakeTerminal :: "GameResult \<Rightarrow> NodeData \<Rightarrow> NodeData" where
  "MakeTerminal result nd =
     nd\<lparr>is_terminal := True, GetQ := (if result = DRAW then 0 else 1)\<rparr>"

subsection \<open>The garbage collector's queue\<close>

text \<open>\<^verbatim>\<open>NodeGarbageCollector::AddToGcQueue\<close>: an empty pointer is dropped, a subtree is
  put at the back of \<^verbatim>\<open>subtrees_to_gc_\<close>. The queue is a list of owned subtrees; the
  collector's thread, which empties it later, is outside the model.\<close>

definition AddToGcQueue :: "Node option \<Rightarrow> Node list \<Rightarrow> Node list" where
  "AddToGcQueue node gc = (case node of None \<Rightarrow> gc | Some x \<Rightarrow> gc @ [x])"

subsection \<open>Expansion\<close>

text \<open>\<^verbatim>\<open>void Node::CreateEdges(const MoveList& moves)\<close>, with its two assertions.\<close>

definition CreateEdges :: "Move list \<Rightarrow> Node \<Rightarrow> error + Node" where
  "CreateEdges moves nd =
     (if edges (dat nd) \<noteq> [] then Inl AssertionFailed
      else if child nd \<noteq> None then Inl AssertionFailed
      else Inr (Node (this nd) ((dat nd)\<lparr>edges := EdgeList moves\<rparr>) (child nd) (sibling nd)))"

text \<open>\<^verbatim>\<open>Node* Node::CreateSingleChildNode(Move move)\<close>. The first argument is the
  address at which \<^verbatim>\<open>std::make_unique<Node>\<close> places the new node; the result is the
  node afterwards and the returned pointer.\<close>

definition CreateSingleChildNode :: "addr \<Rightarrow> Move \<Rightarrow> Node \<Rightarrow> error + (Node \<times> addr)" where
  "CreateSingleChildNode a mv nd =
     (if edges (dat nd) \<noteq> [] then Inl AssertionFailed
      else if child nd \<noteq> None then Inl AssertionFailed
      else Inr (Node (this nd) ((dat nd)\<lparr>edges := EdgeList [mv]\<rparr>) (Some (new_Node a 0))
                  (sibling nd), a))"

subsection \<open>Walking the children\<close>

text \<open>The nodes of a chain of \<^verbatim>\<open>sibling_\<close> pointers, first to last.\<close>

fun siblings :: "Node option \<Rightarrow> Node list" where
  "siblings None = []"
| "siblings (Some (Node a d c s)) = Node a d c s # siblings s"

text \<open>\<^verbatim>\<open>Node::ChildNodes()\<close>: the range that starts at \<^verbatim>\<open>child_.get()\<close>.\<close>

definition ChildNodes :: "Node \<Rightarrow> Node list" where
  "ChildNodes nd = siblings (child nd)"

text \<open>
  Modelled from the spec: \<^verbatim>\<open>Node::Edges()\<close> returns an iterator whose class is in
  node.h. The specification describes it as a walk over the edge positions in order
  that presents, at position \<open>i\<close>, the edge \<open>edges[i]\<close> together with the materialized
  child of that position, if any. An element is the position, the edge and that child.
\<close>

definition Edges :: "Node \<Rightarrow> (nat \<times> Edge \<times> Node option) list" where
  "Edges nd =
     map (\<lambda>i. (i, edges (dat nd) ! i, find (\<lambda>c. index (dat c) = i) (ChildNodes nd)))
       [0..<length (edges (dat nd))]"

text \<open>Modelled from the spec: \<^verbatim>\<open>EdgeAndNode::GetN()\<close> is in node.h; an edge without a
  node counts zero visits.\<close>

definition EdgeAndNode_GetN :: "Node option \<Rightarrow> nat" where
  "EdgeAndNode_GetN node = (case node of None \<Rightarrow> 0 | Some c \<Rightarrow> GetN (dat c))"

text \<open>
  Modelled from the spec: \<^verbatim>\<open>GetOrSpawnNode\<close> is in node.h. If the position already has
  a node, that node is returned; otherwise a new node for the position is allocated (at
  the address given) and spliced into the child list so that the list stays in
  ascending order of \<open>index\<close>. \<open>splice\<close> puts the new node in front of the first child
  with a larger index.
\<close>

fun splice :: "Node \<Rightarrow> Node option \<Rightarrow> Node option" where
  "splice x None = Some (Node (this x) (dat x) (child x) None)"
| "splice x (Some (Node b d c s)) =
     (if index (dat x) < index d
      then Some (Node (this x) (dat x) (child x) (Some (Node b d c s)))
      else Some (Node b d c (splice x s)))"

definition GetOrSpawnNode :: "addr \<Rightarrow> nat \<Rightarrow> Node \<Rightarrow> Node \<times> addr" where
  "GetOrSpawnNode a i nd =
     (case find (\<lambda>c. index (dat c) = i) (ChildNodes nd) of
        Some c \<Rightarrow> (nd, this c)
      | None \<Rightarrow> (Node (this nd) (dat nd) (splice (new_Node a i) (child nd)) (sibling nd), a))"

subsection \<open>Depth summaries\<close>

text \<open>\<^verbatim>\<open>bool Node::UpdateFullDepth(uint16_t* depth)\<close>: the returned flag, the value left
  in \<^verbatim>\<open>*depth\<close> and the node afterwards. \<^verbatim>\<open>++*depth\<close> is addition in the 16-bit words.\<close>

definition UpdateFullDepth :: "16 word \<Rightarrow> Node \<Rightarrow> bool \<times> 16 word \<times> Node" where
  "UpdateFullDepth depth nd =
     (if full_depth (dat nd) > depth then (False, depth, nd)
      else
        let d1 = fold (\<lambda>c d. if d > full_depth (dat c) then full_depth (dat c) else d)
                   (ChildNodes nd) depth
        in if d1 \<ge> full_depth (dat nd)
           then (True, d1 + 1,
                 Node (this nd) ((dat nd)\<lparr>full_depth := d1 + 1\<rparr>) (child nd) (sibling nd))
           else (False, d1, nd))"

subsection \<open>Releasing children\<close>

text \<open>
  The loop of \<^verbatim>\<open>ReleaseChildrenExceptOne\<close> walks the owning pointers \<^verbatim>\<open>child_\<close>,
  \<^verbatim>\<open>child_->sibling_\<close>, ... until one is empty or holds the node to save. At the node
  to save it queues that node's \<^verbatim>\<open>sibling_\<close> (which empties it), moves the node out of
  the pointer that held it (which empties that pointer) and stops. The result is the
  chain as the loop leaves it, \<^verbatim>\<open>saved_node\<close>, and the queue.
\<close>

fun save_loop :: "addr option \<Rightarrow> Node option \<Rightarrow> Node list \<Rightarrow> Node option \<times> Node option \<times> Node list" where
  "save_loop node_to_save None gc = (None, None, gc)"
| "save_loop node_to_save (Some (Node a d c s)) gc =
     (if Some a = node_to_save then (None, Some (Node a d c None), AddToGcQueue s gc)
      else (case save_loop node_to_save s gc of
              (s1, saved_node, gc1) \<Rightarrow> (Some (Node a d c s1), saved_node, gc1)))"

text \<open>\<^verbatim>\<open>void Node::ReleaseChildrenExceptOne(Node* node_to_save)\<close>, on the node and the
  queue.\<close>

definition ReleaseChildrenExceptOne :: "addr option \<Rightarrow> Node \<times> Node list \<Rightarrow> Node \<times> Node list" where
  "ReleaseChildrenExceptOne node_to_save st =
     (case st of (nd, gc) \<Rightarrow>
        (case save_loop node_to_save (child nd) gc of
           (ch, saved_node, gc1) \<Rightarrow>
             (Node (this nd) (dat nd) saved_node (sibling nd), AddToGcQueue ch gc1)))"

subsection \<open>Training data\<close>

text \<open>\<^verbatim>\<open>uint64_t ReverseBitsInBytes(uint64_t v)\<close>.\<close>

definition ReverseBitsInBytes :: "64 word \<Rightarrow> 64 word" where
  "ReverseBitsInBytes v =
     (let v1 = (drop_bit 1 v AND 0x5555555555555555) OR push_bit 1 (v AND 0x5555555555555555);
          v2 = (drop_bit 2 v1 AND 0x3333333333333333) OR push_bit 2 (v1 AND 0x3333333333333333);
          v3 = (drop_bit 4 v2 AND 0x0F0F0F0F0F0F0F0F) OR push_bit 4 (v2 AND 0x0F0F0F0F0F0F0F0F)
      in v3)"

text \<open>
  Modelled from the spec: the struct \<^verbatim>\<open>V3TrainingData\<close> is declared outside node.cc.
  Its fields are those node.cc writes; the small unsigned fields are natural numbers,
  \<open>result\<close> is an integer, and \<open>probabilities\<close> is an array whose size (the size of the
  policy head) is a parameter. An entry of \<open>probabilities\<close> holds a quotient: \<open>Inr x\<close> for
  the number \<open>x\<close>, \<open>Inl DivisionByZero\<close> for the NaN or infinity of a division by zero.
\<close>

record V3TrainingData =
  version :: nat
  probabilities :: "(error + real) list"
  planes :: "64 word list"
  castling_us_ooo :: nat
  castling_us_oo :: nat
  castling_them_ooo :: nat
  castling_them_oo :: nat
  side_to_move :: nat
  move_count :: nat
  rule50_count :: nat
  result :: int

text \<open>What \<^verbatim>\<open>GetV3TrainingData\<close> reads from the position \<^verbatim>\<open>history.Last()\<close>; the class
  \<^verbatim>\<open>Position\<close> itself is in the chess headers.\<close>

record Position =
  IsBlackToMove :: bool
  WE_CAN_OOO :: bool
  WE_CAN_OO :: bool
  THEY_CAN_OOO :: bool
  THEY_CAN_OO :: bool
  GetNoCapturePly :: nat

text \<open>Division of two floats. A zero divisor gives NaN or an infinity in the source,
  which no real number stands for: the quotient is then \<open>Inl DivisionByZero\<close>.\<close>

definition float_div :: "real \<Rightarrow> real \<Rightarrow> error + real" where
  "float_div x y = (if y = 0 then Inl DivisionByZero else Inr (x / y))"

text \<open>A write into the array \<^verbatim>\<open>probabilities\<close>; beyond its size the source's behaviour is
  undefined.\<close>

definition array_write :: "'a list \<Rightarrow> nat \<Rightarrow> 'a \<Rightarrow> error + 'a list" where
  "array_write xs i x = (if i < length xs then Inr (xs[i := x]) else Inl OutOfRange)"

text \<open>The loop that populates the probabilities: for each element of \<^verbatim>\<open>Edges()\<close>, in
  order, the entry at the move's policy index becomes the child's visits over
  \<open>total_n\<close>, whatever the quotient is. \<open>as_nn_index\<close> is \<^verbatim>\<open>Move::as_nn_index\<close>, a
  parameter.\<close>

fun populate ::
  "(Move \<Rightarrow> nat) \<Rightarrow> real \<Rightarrow> (nat \<times> Edge \<times> Node option) list \<Rightarrow> (error + real) list
     \<Rightarrow> error + (error + real) list" where
  "populate as_nn_index total_n [] probs = Inr probs"
| "populate as_nn_index total_n ((i, e, node) # rest) probs =
     (case array_write probs (as_nn_index (GetMove e))
             (float_div (real (EdgeAndNode_GetN node)) total_n) of
        Inl err \<Rightarrow> Inl err
      | Inr probs1 \<Rightarrow> populate as_nn_index total_n rest probs1)"

text \<open>\<^verbatim>\<open>total_n\<close>: the visits of the node less one, as a float. The counter is unbounded
  here, so the difference is the integer one.\<close>

definition total_n :: "Node \<Rightarrow> real" where
  "total_n nd = real_of_int (int (GetN (dat nd)) - 1)"

text \<open>
  \<^verbatim>\<open>V3TrainingData Node::GetV3TrainingData(GameResult, const PositionHistory&)\<close>. The
  history enters through what the method takes from it: \<open>encoded\<close>, the masks of the
  planes \<^verbatim>\<open>EncodePositionForNN(history, 8)\<close>, and \<open>position\<close>, which is
  \<^verbatim>\<open>history.Last()\<close>. \<open>policy_size\<close> is the size of the array \<^verbatim>\<open>probabilities\<close>, which
  \<^verbatim>\<open>memset\<close> fills with zeros before the loop. The only error is a write beyond the
  array.
\<close>

definition GetV3TrainingData ::
  "(Move \<Rightarrow> nat) \<Rightarrow> nat \<Rightarrow> 64 word list \<Rightarrow> Position \<Rightarrow> GameResult \<Rightarrow> Node
     \<Rightarrow> error + V3TrainingData" where
  "GetV3TrainingData as_nn_index policy_size encoded position game_result nd =
     (case populate as_nn_index (total_n nd) (Edges nd) (replicate policy_size (Inr 0)) of
        Inl err \<Rightarrow> Inl err
      | Inr probs \<Rightarrow>
          Inr \<lparr>version = 3,
               probabilities = probs,
               planes = map ReverseBitsInBytes encoded,
               castling_us_ooo = (if WE_CAN_OOO position then 1 else 0),
               castling_us_oo = (if WE_CAN_OO position then 1 else 0),
               castling_them_ooo = (if THEY_CAN_OOO position then 1 else 0),
               castling_them_oo = (if THEY_CAN_OO position then 1 else 0),
               side_to_move = (if IsBlackToMove position then 1 else 0),
               move_count = 0,
               rule50_count = GetNoCapturePly position,
               result =
                 (if game_result = WHITE_WON then (if IsBlackToMove position then - 1 else 1)
                  else if game_result = BLACK_WON then (if IsBlackToMove position then 1 else - 1)
                  else 0)\<rparr>)"

subsection \<open>The tree\<close>

text \<open>
  \<^verbatim>\<open>NodeTree\<close>: the owning pointer to the root, the plain pointer to the current head,
  and the history. The class \<^verbatim>\<open>PositionHistory\<close> is in the chess headers: its type is
  a parameter \<open>'h\<close> here, and so are the two things \<^verbatim>\<open>MakeMove\<close> does with it.
\<close>

record 'h NodeTree =
  gamebegin_node :: "Node option"
  current_head :: "addr option"
  history :: 'h

text \<open>Following a plain pointer: the node with the given address among the nodes a
  pointer owns, directly or through children and siblings.\<close>

fun deref :: "addr \<Rightarrow> Node option \<Rightarrow> Node option" where
  "deref a None = None"
| "deref a (Some (Node b d c s)) =
     (if a = b then Some (Node b d c s)
      else (case deref a c of Some x \<Rightarrow> Some x | None \<Rightarrow> deref a s))"

text \<open>Writing through a plain pointer: the node with the given address is replaced.\<close>

fun assign :: "addr \<Rightarrow> Node \<Rightarrow> Node option \<Rightarrow> Node option" where
  "assign a x None = None"
| "assign a x (Some (Node b d c s)) =
     (if a = b then Some x else Some (Node b d (assign a x c) (assign a x s)))"

text \<open>
  The part of \<^verbatim>\<open>NodeTree::MakeMove\<close> that works on the head node: the search of the
  edges for the move, \<^verbatim>\<open>ReleaseChildrenExceptOne\<close>, and the choice of the new head. The
  result is the old head afterwards, the queue, and the pointer to the new head.
\<close>

definition advance_head ::
  "addr \<Rightarrow> Move \<Rightarrow> Node \<times> Node list \<Rightarrow> error + (Node \<times> Node list \<times> addr)" where
  "advance_head a mv st =
     (case st of (head0, gc) \<Rightarrow>
        (let (head1, new_head) =
               (case find (\<lambda>(i, e, node). GetMove e = mv) (Edges head0) of
                  None \<Rightarrow> (head0, None)
                | Some (i, e, node) \<Rightarrow>
                    (case GetOrSpawnNode a i head0 of (head1, p) \<Rightarrow> (head1, Some p)));
             (head2, gc2) = ReleaseChildrenExceptOne new_head (head1, gc)
         in case new_head of
              Some p \<Rightarrow> Inr (head2, gc2, p)
            | None \<Rightarrow>
                (case CreateSingleChildNode a mv head2 of
                   Inl err \<Rightarrow> Inl err
                 | Inr (head3, p) \<Rightarrow> Inr (head3, gc2, p))))"

text \<open>
  \<^verbatim>\<open>void NodeTree::MakeMove(Move move)\<close>, on the tree and the queue. The parameters are
  \<^verbatim>\<open>Move::Mirror\<close>, the test \<^verbatim>\<open>HeadPosition().IsBlackToMove()\<close> as a function of the
  history, \<^verbatim>\<open>PositionHistory::Append\<close>, and the address the allocator gives to a node
  that the call creates. A head pointer that is null or points to no node of the tree
  is an error.
\<close>

definition MakeMove ::
  "(Move \<Rightarrow> Move) \<Rightarrow> ('h \<Rightarrow> bool) \<Rightarrow> ('h \<Rightarrow> Move \<Rightarrow> 'h) \<Rightarrow> addr \<Rightarrow> Move
     \<Rightarrow> 'h NodeTree \<times> Node list \<Rightarrow> error + ('h NodeTree \<times> Node list)" where
  "MakeMove Mirror HeadIsBlackToMove Append a move st =
     (case st of (tree, gc) \<Rightarrow>
        (case current_head tree of
           None \<Rightarrow> Inl NullDereference
         | Some h \<Rightarrow>
             (case deref h (gamebegin_node tree) of
                None \<Rightarrow> Inl NullDereference
              | Some head0 \<Rightarrow>
                  (let mv = (if HeadIsBlackToMove (history tree) then Mirror move else move)
                   in case advance_head a mv (head0, gc) of
                        Inl err \<Rightarrow> Inl err
                      | Inr (head1, gc1, new_head) \<Rightarrow>
                          Inr (tree\<lparr>gamebegin_node := assign h head1 (gamebegin_node tree),
                                    current_head := Some new_head,
                                    history := Append (history tree) mv\<rparr>, gc1)))))"

subsection \<open>A sequence of backups\<close>

text \<open>The calls \<^verbatim>\<open>FinalizeScoreUpdate(v\<^sub>1)\<close>, ..., \<^verbatim>\<open>FinalizeScoreUpdate(v\<^sub>k)\<close> on one node, one
  after the other, with nothing in between.\<close>

fun backups :: "real list \<Rightarrow> NodeData option \<Rightarrow> NodeData \<Rightarrow> error + (NodeData option \<times> NodeData)" where
  "backups [] pr nd = Inr (pr, nd)"
| "backups (v # vs) pr nd =
     (case FinalizeScoreUpdate v pr nd of
        Inl err \<Rightarrow> Inl err
      | Inr (pr1, nd1) \<Rightarrow> backups vs pr1 nd1)"

subsection \<open>Notions used in the statements\<close>

text \<open>A node without its \<^verbatim>\<open>sibling_\<close> pointer: its address, its data and its own
  children.\<close>

definition unlink :: "Node \<Rightarrow> Node" where
  "unlink x = Node (this x) (dat x) (child x) None"

text \<open>All the nodes the queue holds at its top level: every queued subtree root together
  with the siblings chained to it.\<close>

definition queued :: "Node list \<Rightarrow> Node list" where
  "queued gc = concat (map (\<lambda>x. siblings (Some x)) gc)"

text \<open>The least of \<open>depth\<close> and the \<open>full_depth\<close> of every materialized child.\<close>

definition capped_min :: "16 word \<Rightarrow> Node \<Rightarrow> 16 word" where
  "capped_min depth nd = Min (insert depth ((\<lambda>c. full_depth (dat c)) ` set (ChildNodes nd)))"

text \<open>The position of the first edge that carries the move \<open>mv\<close>.\<close>

definition first_edge :: "Move \<Rightarrow> Edge list \<Rightarrow> nat \<Rightarrow> bool" where
  "first_edge mv es i =
     (i < length es \<and> GetMove (es ! i) = mv \<and> (\<forall>j < i. GetMove (es ! j) \<noteq> mv))"

subsection \<open>A small tree\<close>

text \<open>An expanded head with the three moves 3, 5 and 7 and materialized children on the
  first and the last of them, and the tree whose root and head is a given node.\<close>

definition example_head :: Node where
  "example_head =
     Node 1 (new_NodeData 0\<lparr>edges := EdgeList [3, 5, 7]\<rparr>)
       (Some (Node 2 (new_NodeData 0\<lparr>GetN := 4\<rparr>) None
          (Some (Node 3 (new_NodeData 2\<lparr>GetN := 6\<rparr>) None None)))) None"

definition example_tree :: "Node \<Rightarrow> Move list \<Rightarrow> Move list NodeTree" where
  "example_tree r h = \<lparr>gamebegin_node = Some r, current_head = Some (this r), history = h\<rparr>"

section \<open>Properties\<close>

subsection \<open>TryStartScoreUpdate\<close>

text \<open>
  C1. \<^verbatim>\<open>TryStartScoreUpdate()\<close> returns false if and only if \<open>n = 0\<close> and
  \<open>n_in_flight > 0\<close>, and then the node is left exactly as it was; in every other state
  it returns true with \<open>n_in_flight\<close> one larger, and in both cases \<open>n\<close>, \<open>q\<close> and
  \<open>visited_policy\<close> (and every other member) keep their values.
\<close>

theorem TryStartScoreUpdate_gate:
  "(\<not> fst (TryStartScoreUpdate nd)) = (GetN nd = 0 \<and> n_in_flight nd > 0) \<and>
   (\<not> fst (TryStartScoreUpdate nd) \<longrightarrow> snd (TryStartScoreUpdate nd) = nd) \<and>
   (fst (TryStartScoreUpdate nd) \<longrightarrow>
      n_in_flight (snd (TryStartScoreUpdate nd)) = n_in_flight nd + 1) \<and>
   GetN (snd (TryStartScoreUpdate nd)) = GetN nd \<and>
   GetQ (snd (TryStartScoreUpdate nd)) = GetQ nd \<and>
   visited_policy (snd (TryStartScoreUpdate nd)) = visited_policy nd \<and>
   snd (TryStartScoreUpdate nd)\<lparr>n_in_flight := n_in_flight nd\<rparr> = nd"
  by (simp add: TryStartScoreUpdate_def)

theorem TryStartScoreUpdate_gate_witness:
  "\<not> fst (TryStartScoreUpdate (new_NodeData 0\<lparr>n_in_flight := 1\<rparr>)) \<and>
   snd (TryStartScoreUpdate (new_NodeData 0\<lparr>n_in_flight := 1\<rparr>)) = new_NodeData 0\<lparr>n_in_flight := 1\<rparr> \<and>
   fst (TryStartScoreUpdate (new_NodeData 0)) \<and>
   n_in_flight (snd (TryStartScoreUpdate (new_NodeData 0))) = 1"
  using TryStartScoreUpdate_gate [of "new_NodeData 0\<lparr>n_in_flight := 1\<rparr>"]
        TryStartScoreUpdate_gate [of "new_NodeData 0"]
  by (simp add: new_NodeData_def)

subsection \<open>FinalizeScoreUpdate\<close>

text \<open>
  C2. \<^verbatim>\<open>FinalizeScoreUpdate(v)\<close> on a node with state \<open>(n, q, n_in_flight)\<close> gives
  \<open>q' = q + (v - q) / (n + 1)\<close>, \<open>n' = n + 1\<close> and \<open>n_in_flight' = n_in_flight - 1\<close>; when
  \<open>n = 0\<close> and the node has a parent, the parent's \<open>visited_policy\<close> grows by the prior of
  the parent's edge at the node's index, and otherwise the parent is unchanged. Nothing
  else changes. The edge read requires the node's index to be a position of its
  parent's edge list.
\<close>

theorem FinalizeScoreUpdate_effect:
  assumes "\<And>pa. GetN nd = 0 \<Longrightarrow> pr = Some pa \<Longrightarrow> index nd < length (edges pa)"
  shows "FinalizeScoreUpdate v pr nd =
           Inr (if GetN nd = 0
                then map_option (\<lambda>pa. pa\<lparr>visited_policy :=
                                         visited_policy pa + GetP (edges pa ! index nd)\<rparr>) pr
                else pr,
                nd\<lparr>GetQ := GetQ nd + (v - GetQ nd) / (real (GetN nd) + 1),
                   GetN := GetN nd + 1,
                   n_in_flight := n_in_flight nd - 1\<rparr>)"
  using assms
  by (cases pr) (auto simp: FinalizeScoreUpdate_def Let_def add.commute)

theorem FinalizeScoreUpdate_effect_witness:
  "index (new_NodeData 0\<lparr>n_in_flight := 1\<rparr>)
     < length (edges (new_NodeData 0\<lparr>edges := [\<lparr>GetMove = 7, GetP = 1 / 4\<rparr>]\<rparr>)) \<and>
   FinalizeScoreUpdate (1 / 2) (Some (new_NodeData 0\<lparr>edges := [\<lparr>GetMove = 7, GetP = 1 / 4\<rparr>]\<rparr>))
       (new_NodeData 0\<lparr>n_in_flight := 1\<rparr>) =
     Inr (Some (new_NodeData 0\<lparr>edges := [\<lparr>GetMove = 7, GetP = 1 / 4\<rparr>], visited_policy := 1 / 4\<rparr>),
          new_NodeData 0\<lparr>GetQ := 1 / 2, GetN := 1\<rparr>)"
  using FinalizeScoreUpdate_effect
          [of "new_NodeData 0\<lparr>n_in_flight := 1\<rparr>"
              "Some (new_NodeData 0\<lparr>edges := [\<lparr>GetMove = 7, GetP = 1 / 4\<rparr>]\<rparr>)" "1 / 2"]
  by (simp add: new_NodeData_def)

subsection \<open>The running mean\<close>

lemma FinalizeScoreUpdate_mean:
  assumes "FinalizeScoreUpdate v pr nd = Inr (pr1, nd1)"
  shows "GetN nd1 = GetN nd + 1"
    and "GetQ nd1 * real (GetN nd1) = GetQ nd * real (GetN nd) + v"
    and "pr = None \<Longrightarrow> pr1 = None"
    and "pr = Some pa \<Longrightarrow> \<exists>pb. pr1 = Some pb \<and> edges pb = edges pa"
  using assms
  by (auto simp: FinalizeScoreUpdate_def Let_def field_simps split: if_splits option.splits sum.splits)

lemma backups_sum:
  assumes "0 < GetN nd"
  shows "\<exists>pr1 nd1. backups vs pr nd = Inr (pr1, nd1) \<and> GetN nd1 = GetN nd + length vs \<and>
           GetQ nd1 * real (GetN nd1) = GetQ nd * real (GetN nd) + sum_list vs"
  using assms
proof (induction vs arbitrary: pr nd)
  case Nil
  then show ?case by simp
next
  case (Cons v vs)
  from Cons.prems obtain pr1 nd1 where f: "FinalizeScoreUpdate v pr nd = Inr (pr1, nd1)"
    by (auto simp: FinalizeScoreUpdate_def Let_def)
  from FinalizeScoreUpdate_mean(1,2)[OF f] Cons.IH[of nd1 pr1] f
  show ?case by auto
qed

text \<open>
  C8. A node with \<open>n = 0\<close> (a fresh node in particular) that receives the backups
  \<open>v\<^sub>1, ..., v\<^sub>k\<close>, \<open>k \<ge> 1\<close>, one after the other ends with \<open>q = (v\<^sub>1 + ... + v\<^sub>k) / k\<close>
  and \<open>n = k\<close>, in exact arithmetic; the sequence of calls runs to its end.
\<close>

theorem backups_mean:
  assumes "GetN nd = 0" and "vs \<noteq> []"
    and "\<And>pa. pr = Some pa \<Longrightarrow> index nd < length (edges pa)"
  shows "\<exists>pr1 nd1. backups vs pr nd = Inr (pr1, nd1) \<and> GetN nd1 = length vs \<and>
           GetQ nd1 = sum_list vs / real (length vs)"
proof -
  from assms(2) obtain v ws where vs: "vs = v # ws" by (cases vs) auto
  from assms(1,3) obtain pr1 nd1 where f: "FinalizeScoreUpdate v pr nd = Inr (pr1, nd1)"
    by (cases pr) (auto simp: FinalizeScoreUpdate_def Let_def)
  note m = FinalizeScoreUpdate_mean(1,2)[OF f]
  from m assms(1) have pos: "0 < GetN nd1" by simp
  from backups_sum[OF pos, of ws pr1] obtain pr2 nd2 where
    b: "backups ws pr1 nd1 = Inr (pr2, nd2)" and n2: "GetN nd2 = GetN nd1 + length ws"
    and q2: "GetQ nd2 * real (GetN nd2) = GetQ nd1 * real (GetN nd1) + sum_list ws"
    by blast
  from n2 m assms(1) have len: "GetN nd2 = length vs" by (simp add: vs)
  from q2 m assms(1) have "GetQ nd2 * real (length vs) = sum_list vs"
    unfolding len by (simp add: vs)
  then have "GetQ nd2 = sum_list vs / real (length vs)" using assms(2) by (simp add: field_simps)
  with b f len show ?thesis by (auto simp: vs)
qed

theorem backups_mean_witness:
  "GetN (new_NodeData 0) = 0 \<and> [1, 0, - 1 / 2] \<noteq> ([] :: real list) \<and>
   (\<exists>pr1 nd1. backups [1, 0, - 1 / 2] None (new_NodeData 0) = Inr (pr1, nd1) \<and>
      GetN nd1 = 3 \<and> GetQ nd1 = 1 / 6)"
  using backups_mean [of "new_NodeData 0" "[1, 0, - 1 / 2]" None]
  by (simp add: new_NodeData_def numeral_3_eq_3 del: backups.simps)

subsection \<open>MakeTerminal\<close>

text \<open>
  C4 (as amended). \<^verbatim>\<open>MakeTerminal(result)\<close> sets \<open>is_terminal\<close> and sets \<open>q\<close> to 0 for a
  draw and to 1 for every other result, whichever side won; it changes nothing else.
  Afterwards \<open>q\<close> is 0 or 1: the method never stores \<open>-1\<close>.
\<close>

theorem MakeTerminal_effect:
  "MakeTerminal r nd = nd\<lparr>is_terminal := True, GetQ := (if r = DRAW then 0 else 1)\<rparr> \<and>
   is_terminal (MakeTerminal r nd) \<and>
   GetQ (MakeTerminal DRAW nd) = 0 \<and>
   GetQ (MakeTerminal WHITE_WON nd) = 1 \<and>
   GetQ (MakeTerminal BLACK_WON nd) = 1 \<and>
   GetQ (MakeTerminal r nd) \<in> {0, 1}"
  by (simp add: MakeTerminal_def)

text \<open>Against C4 as stated: both decisive results, one of which is a loss for the side to
  move whoever that is, leave \<open>q = 1\<close>.\<close>

theorem MakeTerminal_loss_counterexample:
  "GetQ (MakeTerminal WHITE_WON (new_NodeData 0)) = 1 \<and>
   GetQ (MakeTerminal BLACK_WON (new_NodeData 0)) = 1 \<and>
   GetQ (MakeTerminal WHITE_WON (new_NodeData 0)) \<noteq> - 1 \<and>
   GetQ (MakeTerminal BLACK_WON (new_NodeData 0)) \<noteq> - 1"
  by (simp add: MakeTerminal_def new_NodeData_def)

subsection \<open>Assertions\<close>

text \<open>
  C9 (as amended). \<^verbatim>\<open>CreateEdges\<close> fails its assertion exactly when the node already has
  edges or has a child, and otherwise installs the edge list. \<^verbatim>\<open>CancelScoreUpdate\<close> has no
  assertion: in every state it returns with \<open>n_in_flight\<close> one smaller.
\<close>

theorem precondition_violations:
  "(CreateEdges moves nd = Inl AssertionFailed) = (edges (dat nd) \<noteq> [] \<or> child nd \<noteq> None) \<and>
   (edges (dat nd) = [] \<and> child nd = None \<longrightarrow>
      CreateEdges moves nd =
        Inr (Node (this nd) ((dat nd)\<lparr>edges := EdgeList moves\<rparr>) None (sibling nd))) \<and>
   CancelScoreUpdate d = Inr (d\<lparr>n_in_flight := n_in_flight d - 1\<rparr>)"
  by (auto simp: CreateEdges_def CancelScoreUpdate_def)

theorem precondition_violations_witness:
  "CreateEdges [5] (Node 1 (new_NodeData 0\<lparr>edges := EdgeList [3, 4]\<rparr>) None None) = Inl AssertionFailed \<and>
   CreateEdges [5] (Node 1 (new_NodeData 0) (Some (new_Node 2 0)) None) = Inl AssertionFailed \<and>
   CreateEdges [5] (new_Node 1 0) =
     Inr (Node 1 (new_NodeData 0\<lparr>edges := [\<lparr>GetMove = 5, GetP = 0\<rparr>]\<rparr>) None None) \<and>
   CancelScoreUpdate (new_NodeData 0\<lparr>n_in_flight := 2\<rparr>) = Inr (new_NodeData 0\<lparr>n_in_flight := 1\<rparr>)"
  using precondition_violations [of "[5]" "Node 1 (new_NodeData 0\<lparr>edges := EdgeList [3, 4]\<rparr>) None None" "new_NodeData 0\<lparr>n_in_flight := 2\<rparr>"]
        precondition_violations [of "[5]" "Node 1 (new_NodeData 0) (Some (new_Node 2 0)) None" "new_NodeData 0"]
        precondition_violations [of "[5]" "new_Node 1 0" "new_NodeData 0"]
  by (simp add: new_NodeData_def new_Node_def EdgeList_def)

text \<open>Against C9 as stated: a cancel at \<open>n_in_flight = 0\<close> returns normally and leaves the
  counter below zero.\<close>

theorem CancelScoreUpdate_no_assertion_counterexample:
  "CancelScoreUpdate (new_NodeData 0) = Inr (new_NodeData 0\<lparr>n_in_flight := - 1\<rparr>) \<and>
   CancelScoreUpdate (new_NodeData 0) \<noteq> Inl AssertionFailed"
  by (simp add: CancelScoreUpdate_def new_NodeData_def)

subsection \<open>UpdateFullDepth\<close>

lemma fold_min_depth:
  "fold (\<lambda>c d. if d > f c then f c else d) cs (d :: 16 word) = Min (insert d (f ` set cs))"
proof (induction cs arbitrary: d)
  case Nil
  then show ?case by simp
next
  case (Cons c cs)
  have "Min (insert (if f c < d then f c else d) (f ` set cs)) = Min (insert d (insert (f c) (f ` set cs)))"
    by (cases "f ` set cs = {}") (auto simp: min_def)
  with Cons show ?case by simp
qed

lemma word16_less_Suc:
  assumes "(m :: 16 word) < 0xFFFF"
  shows "m < m + 1"
proof -
  have "(- 1 :: 16 word) = 0xFFFF" by simp
  with assms have "m \<noteq> - 1" by auto
  then have "\<not> m + 1 \<le> m" by (simp add: inc_less_eq_self_iff_eq)
  then show ?thesis by simp
qed

text \<open>
  C6 (as amended). \<^verbatim>\<open>UpdateFullDepth(&d)\<close> does nothing and returns false when
  \<open>full_depth > d\<close>. Otherwise it takes the least \<open>m\<close> of \<open>d\<close> itself and the \<open>full_depth\<close>
  of every materialized child: if \<open>m \<ge> full_depth\<close> it sets both \<open>full_depth\<close> and \<open>d\<close> to
  \<open>m + 1\<close> and returns true, else it leaves \<open>full_depth\<close> alone, leaves \<open>m\<close> in \<open>d\<close> and
  returns false. For \<open>d < 65535\<close> it returns true exactly when \<open>full_depth\<close> has increased.
\<close>

theorem UpdateFullDepth_effect:
  "(depth < full_depth (dat nd) \<longrightarrow> UpdateFullDepth depth nd = (False, depth, nd)) \<and>
   (full_depth (dat nd) \<le> capped_min depth nd \<longrightarrow>
      UpdateFullDepth depth nd =
        (True, capped_min depth nd + 1,
         Node (this nd) ((dat nd)\<lparr>full_depth := capped_min depth nd + 1\<rparr>) (child nd) (sibling nd))) \<and>
   (capped_min depth nd < full_depth (dat nd) \<and> full_depth (dat nd) \<le> depth \<longrightarrow>
      UpdateFullDepth depth nd = (False, capped_min depth nd, nd)) \<and>
   (depth < 0xFFFF \<longrightarrow>
      fst (UpdateFullDepth depth nd) =
        (full_depth (dat nd) < full_depth (dat (snd (snd (UpdateFullDepth depth nd))))))"
proof -
  let ?m = "capped_min depth nd"
  have mle: "?m \<le> depth" unfolding capped_min_def by simp
  have f: "fold (\<lambda>c d. if d > full_depth (dat c) then full_depth (dat c) else d) (ChildNodes nd) depth = ?m"
    unfolding capped_min_def by (rule fold_min_depth)
  have inc: "full_depth (dat nd) < ?m + 1" if a: "depth < 0xFFFF" and b: "full_depth (dat nd) \<le> ?m"
  proof -
    from a mle have "?m < 0xFFFF" by simp
    then have "?m < ?m + 1" by (rule word16_less_Suc)
    with b show ?thesis by simp
  qed
  show ?thesis
    using mle inc by (auto simp: UpdateFullDepth_def f Let_def)
qed

theorem UpdateFullDepth_effect_witness:
  "UpdateFullDepth 2 (Node 1 (new_NodeData 0\<lparr>full_depth := 3\<rparr>) None None) =
     (False, 2, Node 1 (new_NodeData 0\<lparr>full_depth := 3\<rparr>) None None) \<and>
   UpdateFullDepth 2 (Node 1 (new_NodeData 0) (Some (Node 2 (new_NodeData 0\<lparr>full_depth := 5\<rparr>) None None)) None) =
     (True, 3, Node 1 (new_NodeData 0\<lparr>full_depth := 3\<rparr>) (Some (Node 2 (new_NodeData 0\<lparr>full_depth := 5\<rparr>) None None)) None) \<and>
   UpdateFullDepth 4 (Node 1 (new_NodeData 0\<lparr>full_depth := 2\<rparr>) (Some (Node 2 (new_NodeData 0\<lparr>full_depth := 1\<rparr>) None None)) None) =
     (False, 1, Node 1 (new_NodeData 0\<lparr>full_depth := 2\<rparr>) (Some (Node 2 (new_NodeData 0\<lparr>full_depth := 1\<rparr>) None None)) None) \<and>
   (2 :: 16 word) < 0xFFFF \<and>
   fst (UpdateFullDepth 2 (Node 1 (new_NodeData 0) (Some (Node 2 (new_NodeData 0\<lparr>full_depth := 5\<rparr>) None None)) None)) \<and>
   full_depth (dat (Node 1 (new_NodeData 0) (Some (Node 2 (new_NodeData 0\<lparr>full_depth := 5\<rparr>) None None)) None))
     < full_depth (dat (snd (snd (UpdateFullDepth 2 (Node 1 (new_NodeData 0) (Some (Node 2 (new_NodeData 0\<lparr>full_depth := 5\<rparr>) None None)) None)))))"
  using UpdateFullDepth_effect [where depth = 2 and nd = "Node 1 (new_NodeData 0\<lparr>full_depth := 3\<rparr>) None None"]
        UpdateFullDepth_effect [where depth = 2 and nd = "Node 1 (new_NodeData 0) (Some (Node 2 (new_NodeData 0\<lparr>full_depth := 5\<rparr>) None None)) None"]
        UpdateFullDepth_effect [where depth = 4 and nd = "Node 1 (new_NodeData 0\<lparr>full_depth := 2\<rparr>) (Some (Node 2 (new_NodeData 0\<lparr>full_depth := 1\<rparr>) None None)) None"]
  by (simp add: capped_min_def ChildNodes_def new_NodeData_def)

text \<open>Against C6 as stated: with \<open>d = 2\<close> and a single child of full depth 5 the new
  \<open>full_depth\<close> is 3, not \<open>1 + 5\<close>.\<close>

theorem UpdateFullDepth_min_counterexample:
  "UpdateFullDepth 2 (Node 1 (new_NodeData 0) (Some (Node 2 (new_NodeData 0\<lparr>full_depth := 5\<rparr>) None None)) None) =
     (True, 3, Node 1 (new_NodeData 0\<lparr>full_depth := 3\<rparr>) (Some (Node 2 (new_NodeData 0\<lparr>full_depth := 5\<rparr>) None None)) None) \<and>
   1 + Min ((\<lambda>c. full_depth (dat c)) ` set (ChildNodes (Node 1 (new_NodeData 0) (Some (Node 2 (new_NodeData 0\<lparr>full_depth := 5\<rparr>) None None)) None))) = 6 \<and>
   (3 :: 16 word) \<noteq> 6"
  by (simp add: UpdateFullDepth_def ChildNodes_def new_NodeData_def)

subsection \<open>ReleaseChildrenExceptOne\<close>

lemma unlink_Node: "unlink (Node a d c s) = Node a d c None"
  by (simp add: unlink_def)

lemma siblings_Cons:
  "siblings c = x # post \<Longrightarrow> c = Some x \<and> siblings (sibling x) = post"
  by (cases c rule: siblings.cases) auto

lemma queued_AddToGcQueue: "queued (AddToGcQueue c gc) = queued gc @ siblings c"
  by (cases c) (simp_all add: AddToGcQueue_def queued_def)

lemma save_loop_absent:
  "node_to_save \<notin> Some ` this ` set (siblings c) \<Longrightarrow> save_loop node_to_save c gc = (c, None, gc)"
  by (induction node_to_save c gc rule: save_loop.induct) auto

lemma save_loop_present:
  assumes "siblings c = pre @ x # post" and "this x \<notin> this ` set pre"
  shows "\<exists>c1. save_loop (Some (this x)) c gc = (c1, Some (unlink x), AddToGcQueue (sibling x) gc) \<and>
           map unlink (siblings c1) = map unlink pre \<and> siblings (sibling x) = post"
  using assms
proof (induction pre arbitrary: c)
  case Nil
  then have c: "c = Some x" and p: "siblings (sibling x) = post"
    using siblings_Cons[of c x post] by auto
  show ?case using p by (cases x) (simp add: c unlink_Node)
next
  case (Cons y pre)
  from Cons.prems(1) have c: "c = Some y" and s: "siblings (sibling y) = pre @ x # post"
    using siblings_Cons[of c y "pre @ x # post"] by auto
  from Cons.prems(2) have ne: "this y \<noteq> this x" and nin: "this x \<notin> this ` set pre" by auto
  from Cons.IH[OF s nin] obtain c1 where
    l: "save_loop (Some (this x)) (sibling y) gc = (c1, Some (unlink x), AddToGcQueue (sibling x) gc)"
    and m: "map unlink (siblings c1) = map unlink pre" and p: "siblings (sibling x) = post"
    by blast
  show ?case using l m p ne by (cases y) (auto simp: c unlink_Node)
qed

text \<open>
  C5. When \<open>keep\<close> is the address of a child (\<open>x\<close>, the first child with that address,
  with the children \<open>pre\<close> before it and \<open>post\<close> after it), \<^verbatim>\<open>ReleaseChildrenExceptOne(keep)\<close>
  leaves \<open>x\<close> as the only child, with no sibling, and the collector's queue receives
  exactly the children after it and the children before it, each with its data and its
  own subtree. When no child has the address \<open>keep\<close> (\<open>keep = nullptr\<close> included), the
  node is left without children and the queue receives all of them.
\<close>

theorem ReleaseChildrenExceptOne_effect:
  "(\<forall>pre x post. ChildNodes nd = pre @ x # post \<and> node_to_save = Some (this x) \<and>
       this x \<notin> this ` set pre \<longrightarrow>
      (\<exists>gc1. ReleaseChildrenExceptOne node_to_save (nd, gc) =
                (Node (this nd) (dat nd) (Some (unlink x)) (sibling nd), gc1) \<and>
              map unlink (queued gc1) = map unlink (queued gc @ post @ pre))) \<and>
   (node_to_save \<notin> Some ` this ` set (ChildNodes nd) \<longrightarrow>
      (\<exists>gc1. ReleaseChildrenExceptOne node_to_save (nd, gc) =
                (Node (this nd) (dat nd) None (sibling nd), gc1) \<and>
              queued gc1 = queued gc @ ChildNodes nd))"
proof (intro conjI allI impI)
  fix pre x post
  assume a: "ChildNodes nd = pre @ x # post \<and> node_to_save = Some (this x) \<and> this x \<notin> this ` set pre"
  then have s: "siblings (child nd) = pre @ x # post" and k: "node_to_save = Some (this x)"
    and nin: "this x \<notin> this ` set pre"
    by (simp_all add: ChildNodes_def)
  from save_loop_present[OF s nin, of gc] obtain c1 where
    l: "save_loop (Some (this x)) (child nd) gc = (c1, Some (unlink x), AddToGcQueue (sibling x) gc)"
    and m: "map unlink (siblings c1) = map unlink pre" and p: "siblings (sibling x) = post"
    by blast
  show "\<exists>gc1. ReleaseChildrenExceptOne node_to_save (nd, gc) =
                (Node (this nd) (dat nd) (Some (unlink x)) (sibling nd), gc1) \<and>
              map unlink (queued gc1) = map unlink (queued gc @ post @ pre)"
    using l m p by (simp add: ReleaseChildrenExceptOne_def k queued_AddToGcQueue)
next
  assume "node_to_save \<notin> Some ` this ` set (ChildNodes nd)"
  then have "save_loop node_to_save (child nd) gc = (child nd, None, gc)"
    by (simp add: ChildNodes_def save_loop_absent)
  then show "\<exists>gc1. ReleaseChildrenExceptOne node_to_save (nd, gc) =
                (Node (this nd) (dat nd) None (sibling nd), gc1) \<and>
              queued gc1 = queued gc @ ChildNodes nd"
    by (simp add: ReleaseChildrenExceptOne_def queued_AddToGcQueue ChildNodes_def)
qed

theorem ReleaseChildrenExceptOne_effect_witness:
  "ChildNodes (Node 1 (new_NodeData 0)
      (Some (Node 2 (new_NodeData 0) None (Some (Node 3 (new_NodeData 1) None (Some (new_Node 4 2))))))
      None) = [Node 2 (new_NodeData 0) None (Some (Node 3 (new_NodeData 1) None (Some (new_Node 4 2))))]
              @ Node 3 (new_NodeData 1) None (Some (new_Node 4 2)) # [new_Node 4 2] \<and>
   ReleaseChildrenExceptOne (Some 3)
     (Node 1 (new_NodeData 0)
        (Some (Node 2 (new_NodeData 0) None (Some (Node 3 (new_NodeData 1) None (Some (new_Node 4 2))))))
        None, []) =
     (Node 1 (new_NodeData 0) (Some (new_Node 3 1)) None, [new_Node 4 2, new_Node 2 0]) \<and>
   ReleaseChildrenExceptOne None
     (Node 1 (new_NodeData 0)
        (Some (Node 2 (new_NodeData 0) None (Some (Node 3 (new_NodeData 1) None (Some (new_Node 4 2))))))
        None, []) =
     (Node 1 (new_NodeData 0) None None,
      [Node 2 (new_NodeData 0) None (Some (Node 3 (new_NodeData 1) None (Some (new_Node 4 2))))])"
  using ReleaseChildrenExceptOne_effect
          [where node_to_save = "Some 3" and gc = "[]" and
             nd = "Node 1 (new_NodeData 0)
                     (Some (Node 2 (new_NodeData 0) None (Some (Node 3 (new_NodeData 1) None (Some (new_Node 4 2))))))
                     None"]
        ReleaseChildrenExceptOne_effect
          [where node_to_save = None and gc = "[]" and
             nd = "Node 1 (new_NodeData 0)
                     (Some (Node 2 (new_NodeData 0) None (Some (Node 3 (new_NodeData 1) None (Some (new_Node 4 2))))))
                     None"]
  by (simp add: ReleaseChildrenExceptOne_def ChildNodes_def new_Node_def AddToGcQueue_def)

subsection \<open>GetV3TrainingData\<close>

lemma populate_entries:
  assumes "\<forall>(i, e, node) \<in> set xs. nn (GetMove e) < length probs"
  shows "\<exists>probs1. populate nn tn xs probs = Inr probs1 \<and> length probs1 = length probs \<and>
           (\<forall>j. j \<notin> (\<lambda>(i, e, node). nn (GetMove e)) ` set xs \<longrightarrow> probs1 ! j = probs ! j) \<and>
           (distinct (map (\<lambda>(i, e, node). nn (GetMove e)) xs) \<longrightarrow>
              (\<forall>(i, e, node) \<in> set xs.
                 probs1 ! nn (GetMove e) = float_div (real (EdgeAndNode_GetN node)) tn)) \<and>
           (tn = 0 \<longrightarrow>
              (\<forall>(i, e, node) \<in> set xs. probs1 ! nn (GetMove e) = Inl DivisionByZero))"
  using assms
proof (induction xs arbitrary: probs)
  case Nil
  then show ?case by simp
next
  case (Cons x xs)
  obtain i e node where x: "x = (i, e, node)" by (cases x) auto
  let ?k = "nn (GetMove e)"
  let ?v = "float_div (real (EdgeAndNode_GetN node)) tn"
  let ?p = "probs[?k := ?v]"
  let ?img = "(\<lambda>(i, e, node). nn (GetMove e)) ` set xs"
  from Cons.prems have k: "?k < length probs" by (simp add: x)
  from Cons.prems have r: "\<forall>(i, e, node) \<in> set xs. nn (GetMove e) < length ?p" by (auto simp: x)
  from Cons.IH[OF r] obtain probs1 where
    p: "populate nn tn xs ?p = Inr probs1" and l: "length probs1 = length ?p"
    and miss: "\<forall>j. j \<notin> ?img \<longrightarrow> probs1 ! j = ?p ! j"
    and hit: "distinct (map (\<lambda>(i, e, node). nn (GetMove e)) xs) \<longrightarrow>
                (\<forall>(i, e, node) \<in> set xs.
                   probs1 ! nn (GetMove e) = float_div (real (EdgeAndNode_GetN node)) tn)"
    and zero: "tn = 0 \<longrightarrow> (\<forall>(i, e, node) \<in> set xs. probs1 ! nn (GetMove e) = Inl DivisionByZero)"
    by blast
  have step: "populate nn tn (x # xs) probs = Inr probs1"
    using p k by (simp add: x array_write_def)
  have len: "length probs1 = length probs" using l by simp
  have rest: "\<forall>j. j \<notin> (\<lambda>(i, e, node). nn (GetMove e)) ` set (x # xs) \<longrightarrow> probs1 ! j = probs ! j"
    using miss by (auto simp: x)
  have hit1: "distinct (map (\<lambda>(i, e, node). nn (GetMove e)) (x # xs)) \<longrightarrow>
                (\<forall>(i, e, node) \<in> set (x # xs).
                   probs1 ! nn (GetMove e) = float_div (real (EdgeAndNode_GetN node)) tn)"
  proof
    assume d: "distinct (map (\<lambda>(i, e, node). nn (GetMove e)) (x # xs))"
    then have fresh: "?k \<notin> ?img" by (auto simp: x)
    with miss k have here: "probs1 ! ?k = ?v" by simp
    from d hit have "\<forall>(i, e, node) \<in> set xs.
                   probs1 ! nn (GetMove e) = float_div (real (EdgeAndNode_GetN node)) tn"
      by simp
    with here show "\<forall>(i, e, node) \<in> set (x # xs).
                   probs1 ! nn (GetMove e) = float_div (real (EdgeAndNode_GetN node)) tn"
      by (simp add: x)
  qed
  have zero1: "tn = 0 \<longrightarrow>
                 (\<forall>(i, e, node) \<in> set (x # xs). probs1 ! nn (GetMove e) = Inl DivisionByZero)"
  proof
    assume t: "tn = 0"
    with zero have z: "\<forall>(i, e, node) \<in> set xs. probs1 ! nn (GetMove e) = Inl DivisionByZero"
      by simp
    have "probs1 ! ?k = Inl DivisionByZero"
    proof (cases "?k \<in> ?img")
      case True
      with z show ?thesis by auto
    next
      case False
      with miss k t show ?thesis by (simp add: float_div_def)
    qed
    with z show "\<forall>(i, e, node) \<in> set (x # xs). probs1 ! nn (GetMove e) = Inl DivisionByZero"
      by (simp add: x)
  qed
  from step len rest hit1 zero1 show ?case by blast
qed

lemma populate_no_division_error:
  assumes "tn \<noteq> 0" and "Inl DivisionByZero \<notin> set probs"
    and "populate nn tn xs probs = Inr probs1"
  shows "Inl DivisionByZero \<notin> set probs1"
  using assms(2,3)
proof (induction xs arbitrary: probs)
  case Nil
  then show ?case by simp
next
  case (Cons x xs)
  obtain i e node where x: "x = (i, e, node)" by (cases x) auto
  let ?p = "probs[nn (GetMove e) := float_div (real (EdgeAndNode_GetN node)) tn]"
  from Cons.prems(2) have p: "populate nn tn xs ?p = Inr probs1"
    by (auto simp: x array_write_def split: if_splits)
  have "set ?p \<subseteq> insert (float_div (real (EdgeAndNode_GetN node)) tn) (set probs)"
    by (rule set_update_subset_insert)
  with Cons.prems(1) assms(1) have "Inl DivisionByZero \<notin> set ?p"
    by (auto simp: float_div_def)
  from Cons.IH[OF this p] show ?case .
qed

lemma populate_only_OutOfRange: "populate nn tn xs probs \<noteq> Inl DivisionByZero"
  by (induction nn tn xs probs rule: populate.induct)
     (auto simp: array_write_def split: sum.splits)

lemma Edges_nth:
  "i < length (edges (dat nd)) \<Longrightarrow>
     (i, edges (dat nd) ! i, find (\<lambda>c. index (dat c) = i) (ChildNodes nd)) \<in> set (Edges nd)"
  by (auto simp: Edges_def)

lemma Edges_indices:
  "map (\<lambda>(i, e, node). f e) (Edges nd) = map f (edges (dat nd))"
  by (auto simp: Edges_def intro: nth_equalityI)

text \<open>
  C7 (as amended). Whenever the policy indices of the head's edges lie inside the array,
  \<^verbatim>\<open>GetV3TrainingData\<close> returns a record with \<open>version = 3\<close> and \<open>move_count = 0\<close> whose
  \<open>result\<close> is 0 for a draw, 1 when the winner is the side to move at the head and \<open>-1\<close>
  when it is the other side. When the head's visit count is not 1 and the edges have
  distinct policy indices, the probability at the policy index of each edge is the
  visits of the child materialized on that edge over the head's visits less one, and 0
  for an edge without a child. When the head's visit count is 1, the entry of every edge
  is the quotient of a division by zero, not a number.
\<close>

theorem GetV3TrainingData_fields:
  assumes "\<forall>e \<in> set (edges (dat nd)). as_nn_index (GetMove e) < policy_size"
  shows "\<exists>r. GetV3TrainingData as_nn_index policy_size encoded position game_result nd = Inr r \<and>
           version r = 3 \<and> move_count r = 0 \<and>
           result r =
             (if game_result = DRAW then 0
              else if (game_result = BLACK_WON) = IsBlackToMove position then 1 else - 1) \<and>
           (GetN (dat nd) \<noteq> 1 \<and>
            distinct (map (\<lambda>e. as_nn_index (GetMove e)) (edges (dat nd))) \<longrightarrow>
              (\<forall>i < length (edges (dat nd)).
                 probabilities r ! as_nn_index (GetMove (edges (dat nd) ! i)) =
                   Inr (case find (\<lambda>c. index (dat c) = i) (ChildNodes nd) of
                          Some c \<Rightarrow> real (GetN (dat c)) / (real (GetN (dat nd)) - 1)
                        | None \<Rightarrow> 0))) \<and>
           (GetN (dat nd) = 1 \<longrightarrow>
              (\<forall>i < length (edges (dat nd)).
                 probabilities r ! as_nn_index (GetMove (edges (dat nd) ! i)) =
                   Inl DivisionByZero))"
proof -
  have tn_eq: "total_n nd = real (GetN (dat nd)) - 1"
    by (simp add: total_n_def)
  have rng: "\<forall>(i, e, node) \<in> set (Edges nd).
               as_nn_index (GetMove e) < length (replicate policy_size (Inr 0 :: error + real))"
    using assms by (auto simp: Edges_def)
  from populate_entries[OF rng, of "total_n nd"] obtain probs where
    p: "populate as_nn_index (total_n nd) (Edges nd) (replicate policy_size (Inr 0)) = Inr probs"
    and hit: "distinct (map (\<lambda>(i, e, node). as_nn_index (GetMove e)) (Edges nd)) \<longrightarrow>
                (\<forall>(i, e, node) \<in> set (Edges nd).
                   probs ! as_nn_index (GetMove e) =
                     float_div (real (EdgeAndNode_GetN node)) (total_n nd))"
    and zero: "total_n nd = 0 \<longrightarrow>
                 (\<forall>(i, e, node) \<in> set (Edges nd).
                    probs ! as_nn_index (GetMove e) = Inl DivisionByZero)"
    by blast
  have entries: "probs ! as_nn_index (GetMove (edges (dat nd) ! i)) =
                   Inr (case find (\<lambda>c. index (dat c) = i) (ChildNodes nd) of
                          Some c \<Rightarrow> real (GetN (dat c)) / (real (GetN (dat nd)) - 1)
                        | None \<Rightarrow> 0)"
    if n: "GetN (dat nd) \<noteq> 1"
      and d: "distinct (map (\<lambda>e. as_nn_index (GetMove e)) (edges (dat nd)))"
      and i: "i < length (edges (dat nd))" for i
  proof -
    from n have nz: "real (GetN (dat nd)) - 1 \<noteq> 0" by simp
    from d have "distinct (map (\<lambda>(i, e, node). as_nn_index (GetMove e)) (Edges nd))"
      by (simp add: Edges_indices)
    with hit Edges_nth[OF i] show ?thesis
      using nz by (auto simp: EdgeAndNode_GetN_def tn_eq float_div_def split: option.splits)
  qed
  have errors: "probs ! as_nn_index (GetMove (edges (dat nd) ! i)) = Inl DivisionByZero"
    if n: "GetN (dat nd) = 1" and i: "i < length (edges (dat nd))" for i
  proof -
    from n have "total_n nd = 0" by (simp add: total_n_def)
    with zero Edges_nth[OF i] show ?thesis by auto
  qed
  show ?thesis
    using p entries errors by (cases game_result) (simp_all add: GetV3TrainingData_def)
qed

theorem GetV3TrainingData_fields_witness:
  "GetV3TrainingData (\<lambda>m. m) 10 [] \<lparr>IsBlackToMove = True, WE_CAN_OOO = False, WE_CAN_OO = False, THEY_CAN_OOO = False,
        THEY_CAN_OO = False, GetNoCapturePly = 0\<rparr> WHITE_WON
       (Node 1 (new_NodeData 0\<lparr>edges := EdgeList [3, 5, 7], GetN := 101\<rparr>)
          (Some (Node 2 (new_NodeData 0\<lparr>GetN := 50\<rparr>) None
             (Some (Node 3 (new_NodeData 2\<lparr>GetN := 50\<rparr>) None None)))) None) =
     Inr \<lparr>version = 3,
          probabilities = [Inr 0, Inr 0, Inr 0, Inr (1 / 2), Inr 0, Inr 0, Inr 0, Inr (1 / 2),
                           Inr 0, Inr 0],
          planes = [],
          castling_us_ooo = 0, castling_us_oo = 0, castling_them_ooo = 0, castling_them_oo = 0,
          side_to_move = 1, move_count = 0, rule50_count = 0, result = - 1\<rparr> \<and>
   GetV3TrainingData (\<lambda>m. m) 4 [] \<lparr>IsBlackToMove = True, WE_CAN_OOO = False, WE_CAN_OO = False, THEY_CAN_OOO = False,
        THEY_CAN_OO = False, GetNoCapturePly = 0\<rparr> BLACK_WON
       (Node 1 (new_NodeData 0\<lparr>edges := EdgeList [2], GetN := 1\<rparr>) None None) =
     Inr \<lparr>version = 3,
          probabilities = [Inr 0, Inr 0, Inl DivisionByZero, Inr 0],
          planes = [],
          castling_us_ooo = 0, castling_us_oo = 0, castling_them_ooo = 0, castling_them_oo = 0,
          side_to_move = 1, move_count = 0, rule50_count = 0, result = 1\<rparr>"
  using GetV3TrainingData_fields
          [where as_nn_index = "\<lambda>m. m" and policy_size = 10 and encoded = "[]" and
             game_result = WHITE_WON and
             position = "\<lparr>IsBlackToMove = True, WE_CAN_OOO = False, WE_CAN_OO = False, THEY_CAN_OOO = False,
        THEY_CAN_OO = False, GetNoCapturePly = 0\<rparr>" and
             nd = "Node 1 (new_NodeData 0\<lparr>edges := EdgeList [3, 5, 7], GetN := 101\<rparr>)
                     (Some (Node 2 (new_NodeData 0\<lparr>GetN := 50\<rparr>) None
                        (Some (Node 3 (new_NodeData 2\<lparr>GetN := 50\<rparr>) None None)))) None"]
        GetV3TrainingData_fields
          [where as_nn_index = "\<lambda>m. m" and policy_size = 4 and encoded = "[]" and
             game_result = BLACK_WON and
             position = "\<lparr>IsBlackToMove = True, WE_CAN_OOO = False, WE_CAN_OO = False, THEY_CAN_OOO = False,
        THEY_CAN_OO = False, GetNoCapturePly = 0\<rparr>" and
             nd = "Node 1 (new_NodeData 0\<lparr>edges := EdgeList [2], GetN := 1\<rparr>) None None"]
  by (simp add: GetV3TrainingData_def Edges_def ChildNodes_def EdgeList_def new_NodeData_def
        total_n_def float_div_def array_write_def EdgeAndNode_GetN_def upt_rec numeral_eq_Suc)

text \<open>Against C7 as stated: a head with one visit and two edges without children. The
  entries of the two edges are quotients by zero, where the claim has 0.\<close>

theorem GetV3TrainingData_unvisited_counterexample:
  "GetV3TrainingData (\<lambda>m. m) 6 [] \<lparr>IsBlackToMove = True, WE_CAN_OOO = False, WE_CAN_OO = False, THEY_CAN_OOO = False,
        THEY_CAN_OO = False, GetNoCapturePly = 0\<rparr> DRAW
       (Node 1 (new_NodeData 0\<lparr>edges := EdgeList [3, 5], GetN := 1\<rparr>) None None) =
     Inr \<lparr>version = 3,
          probabilities = [Inr 0, Inr 0, Inr 0, Inl DivisionByZero, Inr 0, Inl DivisionByZero],
          planes = [],
          castling_us_ooo = 0, castling_us_oo = 0, castling_them_ooo = 0, castling_them_oo = 0,
          side_to_move = 1, move_count = 0, rule50_count = 0, result = 0\<rparr> \<and>
   [Inr 0, Inr 0, Inr 0, Inl DivisionByZero, Inr 0, Inl DivisionByZero] ! 3
     \<noteq> (Inr 0 :: error + real)"
  by (simp add: GetV3TrainingData_def Edges_def ChildNodes_def EdgeList_def new_NodeData_def
        total_n_def float_div_def array_write_def EdgeAndNode_GetN_def upt_rec numeral_eq_Suc)

text \<open>
  C10. The divisor \<^verbatim>\<open>total_n\<close> is not guarded. For a head with \<open>n = 1\<close> it is zero: the
  quotient the loop computes for every edge is a quotient by zero, and that is what the
  entry of every edge holds. For a head with \<open>n \<ge> 2\<close> it is not zero: no quotient by it
  is a quotient by zero, and no entry of the record holds one.
\<close>

theorem GetV3TrainingData_division:
  "(GetN (dat nd) = 1 \<longrightarrow>
      total_n nd = 0 \<and>
      (\<forall>(i, e, node) \<in> set (Edges nd).
         float_div (real (EdgeAndNode_GetN node)) (total_n nd) = Inl DivisionByZero) \<and>
      ((\<forall>e \<in> set (edges (dat nd)). as_nn_index (GetMove e) < policy_size) \<longrightarrow>
         (\<exists>r. GetV3TrainingData as_nn_index policy_size encoded position game_result nd = Inr r \<and>
              (\<forall>e \<in> set (edges (dat nd)).
                 probabilities r ! as_nn_index (GetMove e) = Inl DivisionByZero)))) \<and>
   (2 \<le> GetN (dat nd) \<longrightarrow>
      total_n nd \<noteq> 0 \<and>
      (\<forall>x. float_div x (total_n nd) \<noteq> Inl DivisionByZero) \<and>
      GetV3TrainingData as_nn_index policy_size encoded position game_result nd
        \<noteq> Inl DivisionByZero \<and>
      (\<forall>r. GetV3TrainingData as_nn_index policy_size encoded position game_result nd = Inr r \<longrightarrow>
           Inl DivisionByZero \<notin> set (probabilities r)))"
proof (intro conjI impI)
  assume n: "GetN (dat nd) = 1"
  then show z: "total_n nd = 0" by (simp add: total_n_def)
  then show "\<forall>(i, e, node) \<in> set (Edges nd).
         float_div (real (EdgeAndNode_GetN node)) (total_n nd) = Inl DivisionByZero"
    by (simp add: float_div_def split_beta)
  assume r: "\<forall>e \<in> set (edges (dat nd)). as_nn_index (GetMove e) < policy_size"
  then have rng: "\<forall>(i, e, node) \<in> set (Edges nd).
               as_nn_index (GetMove e) < length (replicate policy_size (Inr 0 :: error + real))"
    by (auto simp: Edges_def)
  from populate_entries[OF rng, of "total_n nd"] z obtain probs where
    p: "populate as_nn_index (total_n nd) (Edges nd) (replicate policy_size (Inr 0)) = Inr probs"
    and e: "\<forall>(i, e, node) \<in> set (Edges nd). probs ! as_nn_index (GetMove e) = Inl DivisionByZero"
    by blast
  have "probs ! as_nn_index (GetMove e) = Inl DivisionByZero" if "e \<in> set (edges (dat nd))" for e
  proof -
    from that obtain i where "i < length (edges (dat nd))" and "e = edges (dat nd) ! i"
      by (auto simp: in_set_conv_nth)
    with e Edges_nth[of i nd] show ?thesis by auto
  qed
  with p show "\<exists>r. GetV3TrainingData as_nn_index policy_size encoded position game_result nd = Inr r \<and>
              (\<forall>e \<in> set (edges (dat nd)).
                 probabilities r ! as_nn_index (GetMove e) = Inl DivisionByZero)"
    by (simp add: GetV3TrainingData_def)
next
  assume "2 \<le> GetN (dat nd)"
  then show nz: "total_n nd \<noteq> 0" by (simp add: total_n_def)
  then show "\<forall>x. float_div x (total_n nd) \<noteq> Inl DivisionByZero"
    by (simp add: float_div_def)
  show "GetV3TrainingData as_nn_index policy_size encoded position game_result nd
        \<noteq> Inl DivisionByZero"
    using populate_only_OutOfRange[of as_nn_index "total_n nd" "Edges nd" "replicate policy_size (Inr 0)"]
    by (auto simp: GetV3TrainingData_def split: sum.splits)
  show "\<forall>r. GetV3TrainingData as_nn_index policy_size encoded position game_result nd = Inr r \<longrightarrow>
           Inl DivisionByZero \<notin> set (probabilities r)"
  proof (intro allI impI)
    fix r
    assume g: "GetV3TrainingData as_nn_index policy_size encoded position game_result nd = Inr r"
    then obtain probs where
      p: "populate as_nn_index (total_n nd) (Edges nd) (replicate policy_size (Inr 0)) = Inr probs"
      and pr: "probabilities r = probs"
      by (auto simp: GetV3TrainingData_def split: sum.splits)
    have "Inl DivisionByZero \<notin> set (replicate policy_size (Inr 0 :: error + real))" by simp
    from populate_no_division_error[OF nz this p] pr
    show "Inl DivisionByZero \<notin> set (probabilities r)" by simp
  qed
qed

theorem GetV3TrainingData_division_witness:
  "GetV3TrainingData (\<lambda>m. m) 4 [] \<lparr>IsBlackToMove = True, WE_CAN_OOO = False, WE_CAN_OO = False, THEY_CAN_OOO = False,
        THEY_CAN_OO = False, GetNoCapturePly = 0\<rparr> DRAW
       (Node 1 (new_NodeData 0\<lparr>edges := EdgeList [3], GetN := 1\<rparr>) None None) =
     Inr \<lparr>version = 3,
          probabilities = [Inr 0, Inr 0, Inr 0, Inl DivisionByZero],
          planes = [],
          castling_us_ooo = 0, castling_us_oo = 0, castling_them_ooo = 0, castling_them_oo = 0,
          side_to_move = 1, move_count = 0, rule50_count = 0, result = 0\<rparr> \<and>
   total_n (Node 1 (new_NodeData 0\<lparr>edges := EdgeList [3], GetN := 1\<rparr>) None None) = 0 \<and>
   total_n (Node 1 (new_NodeData 0\<lparr>edges := EdgeList [3], GetN := 2\<rparr>) None None) \<noteq> 0 \<and>
   GetV3TrainingData (\<lambda>m. m) 4 [] \<lparr>IsBlackToMove = True, WE_CAN_OOO = False, WE_CAN_OO = False, THEY_CAN_OOO = False,
        THEY_CAN_OO = False, GetNoCapturePly = 0\<rparr> DRAW
       (Node 1 (new_NodeData 0\<lparr>edges := EdgeList [3], GetN := 2\<rparr>) None None) =
     Inr \<lparr>version = 3,
          probabilities = [Inr 0, Inr 0, Inr 0, Inr 0],
          planes = [],
          castling_us_ooo = 0, castling_us_oo = 0, castling_them_ooo = 0, castling_them_oo = 0,
          side_to_move = 1, move_count = 0, rule50_count = 0, result = 0\<rparr>"
  using GetV3TrainingData_division
          [where as_nn_index = "\<lambda>m. m" and policy_size = 4 and encoded = "[]" and
             game_result = DRAW and
             position = "\<lparr>IsBlackToMove = True, WE_CAN_OOO = False, WE_CAN_OO = False, THEY_CAN_OOO = False,
        THEY_CAN_OO = False, GetNoCapturePly = 0\<rparr>" and
             nd = "Node 1 (new_NodeData 0\<lparr>edges := EdgeList [3], GetN := 1\<rparr>) None None"]
        GetV3TrainingData_division
          [where as_nn_index = "\<lambda>m. m" and policy_size = 4 and encoded = "[]" and
             game_result = DRAW and
             position = "\<lparr>IsBlackToMove = True, WE_CAN_OOO = False, WE_CAN_OO = False, THEY_CAN_OOO = False,
        THEY_CAN_OO = False, GetNoCapturePly = 0\<rparr>" and
             nd = "Node 1 (new_NodeData 0\<lparr>edges := EdgeList [3], GetN := 2\<rparr>) None None"]
  by (simp add: GetV3TrainingData_def Edges_def ChildNodes_def EdgeList_def new_NodeData_def
        total_n_def float_div_def array_write_def EdgeAndNode_GetN_def upt_rec numeral_eq_Suc)

subsection \<open>MakeMove\<close>

lemma find_Edges_first:
  assumes "first_edge mv (edges (dat nd)) i"
  shows "find (\<lambda>(i, e, node). GetMove e = mv) (Edges nd) =
           Some (i, edges (dat nd) ! i, find (\<lambda>c. index (dat c) = i) (ChildNodes nd))"
  using assms unfolding find_Some_iff first_edge_def
  by (intro exI[of _ i]) (auto simp: Edges_def)

lemma find_Edges_none:
  assumes "mv \<notin> GetMove ` set (edges (dat nd))"
  shows "find (\<lambda>(i, e, node). GetMove e = mv) (Edges nd) = None"
  using assms unfolding find_None_iff by (auto simp: Edges_def)

lemma find_split:
  assumes "find P cs = Some c" and "distinct (map f cs)"
  shows "\<exists>pre post. cs = pre @ c # post \<and> f c \<notin> f ` set pre"
proof -
  from assms(1) obtain k where k: "k < length cs" and c: "c = cs ! k"
    unfolding find_Some_iff by blast
  have cs: "cs = take k cs @ c # drop (Suc k) cs"
    using k c by (simp add: id_take_nth_drop)
  from assms(2) have "distinct (map f (take k cs @ c # drop (Suc k) cs))" using cs by simp
  then have "f c \<notin> f ` set (take k cs)" by auto
  with cs show ?thesis by blast
qed

lemma save_loop_splice:
  assumes "a \<notin> this ` set (siblings c)"
  shows "\<exists>c1 rest pre post.
           save_loop (Some a) (splice (Node a d ch None) c) gc =
             (c1, Some (Node a d ch None), AddToGcQueue rest gc) \<and>
           siblings c = pre @ post \<and> map unlink (siblings c1) = map unlink pre \<and>
           siblings rest = post"
  using assms
proof (induction c rule: siblings.induct)
  case 1
  have "save_loop (Some a) (splice (Node a d ch None) None) gc =
          (None, Some (Node a d ch None), AddToGcQueue None gc) \<and>
        siblings None = [] @ [] \<and> map unlink (siblings None) = map unlink [] \<and>
        siblings None = []"
    by (simp add: AddToGcQueue_def)
  then show ?case by blast
next
  case (2 b d' c' s)
  show ?case
  proof (cases "index d < index d'")
    case True
    then have "save_loop (Some a) (splice (Node a d ch None) (Some (Node b d' c' s))) gc =
          (None, Some (Node a d ch None), AddToGcQueue (Some (Node b d' c' s)) gc) \<and>
        siblings (Some (Node b d' c' s)) = [] @ siblings (Some (Node b d' c' s)) \<and>
        map unlink (siblings None) = map unlink [] \<and>
        siblings (Some (Node b d' c' s)) = siblings (Some (Node b d' c' s))"
      by simp
    then show ?thesis by blast
  next
    case False
    from 2(2) have ne: "b \<noteq> a" and nin: "a \<notin> this ` set (siblings s)" by auto
    from 2(1)[OF nin] obtain c1 rest pre post where
      l: "save_loop (Some a) (splice (Node a d ch None) s) gc =
            (c1, Some (Node a d ch None), AddToGcQueue rest gc)"
      and s: "siblings s = pre @ post" and m: "map unlink (siblings c1) = map unlink pre"
      and r: "siblings rest = post"
      by auto
    have "save_loop (Some a) (splice (Node a d ch None) (Some (Node b d' c' s))) gc =
            (Some (Node b d' c' c1), Some (Node a d ch None), AddToGcQueue rest gc) \<and>
          siblings (Some (Node b d' c' s)) = (Node b d' c' s # pre) @ post \<and>
          map unlink (siblings (Some (Node b d' c' c1))) = map unlink (Node b d' c' s # pre) \<and>
          siblings rest = post"
      using False ne l s m r by (simp add: unlink_Node)
    then show ?thesis by blast
  qed
qed

lemma advance_head_existing:
  assumes fe: "first_edge mv (edges (dat head)) i"
    and fc: "find (\<lambda>c. index (dat c) = i) (ChildNodes head) = Some c"
    and di: "distinct (map this (ChildNodes head))"
  shows "\<exists>gc1 pre post.
           advance_head a mv (head, gc) =
             Inr (Node (this head) (dat head) (Some (unlink c)) (sibling head), gc1, this c) \<and>
           ChildNodes head = pre @ c # post \<and>
           map unlink (queued gc1) = map unlink (queued gc @ post @ pre)"
proof -
  from find_split[OF fc di] obtain pre post where
    cs: "ChildNodes head = pre @ c # post" and nin: "this c \<notin> this ` set pre" by blast
  from cs have s: "siblings (child head) = pre @ c # post" by (simp add: ChildNodes_def)
  from save_loop_present[OF s nin, of gc] obtain c1 where
    l: "save_loop (Some (this c)) (child head) gc = (c1, Some (unlink c), AddToGcQueue (sibling c) gc)"
    and m: "map unlink (siblings c1) = map unlink pre" and p: "siblings (sibling c) = post"
    by blast
  have "advance_head a mv (head, gc) =
          Inr (Node (this head) (dat head) (Some (unlink c)) (sibling head),
               AddToGcQueue c1 (AddToGcQueue (sibling c) gc), this c)"
    by (simp add: advance_head_def find_Edges_first[OF fe] GetOrSpawnNode_def fc
          ReleaseChildrenExceptOne_def l)
  moreover have "map unlink (queued (AddToGcQueue c1 (AddToGcQueue (sibling c) gc))) =
                   map unlink (queued gc @ post @ pre)"
    using m p by (simp add: queued_AddToGcQueue)
  ultimately show ?thesis using cs by blast
qed

lemma advance_head_spawn:
  assumes fe: "first_edge mv (edges (dat head)) i"
    and fc: "find (\<lambda>c. index (dat c) = i) (ChildNodes head) = None"
    and fr: "a \<notin> this ` set (ChildNodes head)"
  shows "\<exists>gc1 pre post.
           advance_head a mv (head, gc) =
             Inr (Node (this head) (dat head) (Some (new_Node a i)) (sibling head), gc1, a) \<and>
           ChildNodes head = pre @ post \<and>
           map unlink (queued gc1) = map unlink (queued gc @ post @ pre)"
proof -
  from fr have nin: "a \<notin> this ` set (siblings (child head))" by (simp add: ChildNodes_def)
  from save_loop_splice[OF nin, of "new_NodeData i" None gc] obtain c1 rest pre post where
    l: "save_loop (Some a) (splice (new_Node a i) (child head)) gc =
          (c1, Some (new_Node a i), AddToGcQueue rest gc)"
    and s: "siblings (child head) = pre @ post" and m: "map unlink (siblings c1) = map unlink pre"
    and r: "siblings rest = post"
    unfolding new_Node_def by blast
  have "advance_head a mv (head, gc) =
          Inr (Node (this head) (dat head) (Some (new_Node a i)) (sibling head),
               AddToGcQueue c1 (AddToGcQueue rest gc), a)"
    by (simp add: advance_head_def find_Edges_first[OF fe] GetOrSpawnNode_def fc
          ReleaseChildrenExceptOne_def l)
  moreover have "map unlink (queued (AddToGcQueue c1 (AddToGcQueue rest gc))) =
                   map unlink (queued gc @ post @ pre)"
    using m r by (simp add: queued_AddToGcQueue)
  ultimately show ?thesis using s by (auto simp: ChildNodes_def)
qed

lemma save_loop_null: "save_loop None c gc = (c, None, gc)"
  by (rule save_loop_absent) auto

lemma advance_head_unexpanded:
  assumes "edges (dat head) = []"
  shows "advance_head a mv (head, gc) =
           Inr (Node (this head) ((dat head)\<lparr>edges := EdgeList [mv]\<rparr>) (Some (new_Node a 0))
                  (sibling head),
                AddToGcQueue (child head) gc, a)"
proof -
  from assms have "mv \<notin> GetMove ` set (edges (dat head))" by simp
  from find_Edges_none[OF this] assms show ?thesis
    by (simp add: advance_head_def ReleaseChildrenExceptOne_def save_loop_null
          CreateSingleChildNode_def)
qed

lemma advance_head_assert:
  assumes "mv \<notin> GetMove ` set (edges (dat head))" and "edges (dat head) \<noteq> []"
  shows "advance_head a mv (head, gc) = Inl AssertionFailed"
  using find_Edges_none[OF assms(1)] assms(2)
  by (simp add: advance_head_def ReleaseChildrenExceptOne_def save_loop_null
        CreateSingleChildNode_def)

lemma MakeMove_unfold:
  assumes "current_head tree = Some h" and "deref h (gamebegin_node tree) = Some head"
  shows "MakeMove Mirror Black Append a move (tree, gc) =
           (case advance_head a (if Black (history tree) then Mirror move else move) (head, gc) of
              Inl err \<Rightarrow> Inl err
            | Inr (head1, gc1, new_head) \<Rightarrow>
                Inr (tree\<lparr>gamebegin_node := assign h head1 (gamebegin_node tree),
                          current_head := Some new_head,
                          history := Append (history tree)
                                       (if Black (history tree) then Mirror move else move)\<rparr>, gc1))"
  using assms by (simp add: MakeMove_def Let_def)

text \<open>
  The effect of \<^verbatim>\<open>MakeMove(move)\<close>, case by case. It works with the move mirrored exactly
  when the head position has black to move. At the first edge of the head that carries
  this move, the node of that edge (the existing one, or a new one with \<open>n = 0\<close>) becomes
  the only child of the old head and the new head. When the head has no edges at all, it
  receives a one-edge list for the move and a fresh child with \<open>n = 0\<close>, which becomes the
  new head. In these cases every other child of the old head goes to the collector's
  queue and the move, as mirrored, is appended to the history. When the head has edges
  and none carries the move, the call ends in \<^verbatim>\<open>CreateSingleChildNode\<close> at the assertion
  that the node has no edges. The head's children have distinct addresses and the
  allocator's address is none of them.
\<close>

theorem MakeMove_effect:
  fixes tree :: "'h NodeTree" and Mirror :: "Move \<Rightarrow> Move" and Black :: "'h \<Rightarrow> bool"
    and move :: Move
  defines "mv \<equiv> (if Black (history tree) then Mirror move else move)"
  assumes hd: "current_head tree = Some h"
    and de: "deref h (gamebegin_node tree) = Some head"
    and di: "distinct (map this (ChildNodes head))"
    and fr: "a \<notin> this ` set (ChildNodes head)"
  shows
    "(\<forall>i c. first_edge mv (edges (dat head)) i \<and>
            find (\<lambda>c. index (dat c) = i) (ChildNodes head) = Some c \<longrightarrow>
        (\<exists>gc1 pre post.
           MakeMove Mirror Black Append a move (tree, gc) =
             Inr (tree\<lparr>gamebegin_node :=
                         assign h (Node (this head) (dat head) (Some (unlink c)) (sibling head))
                           (gamebegin_node tree),
                       current_head := Some (this c),
                       history := Append (history tree) mv\<rparr>, gc1) \<and>
           ChildNodes head = pre @ c # post \<and>
           map unlink (queued gc1) = map unlink (queued gc @ post @ pre))) \<and>
     (\<forall>i. first_edge mv (edges (dat head)) i \<and>
          find (\<lambda>c. index (dat c) = i) (ChildNodes head) = None \<longrightarrow>
        (\<exists>gc1 pre post.
           MakeMove Mirror Black Append a move (tree, gc) =
             Inr (tree\<lparr>gamebegin_node :=
                         assign h (Node (this head) (dat head) (Some (new_Node a i)) (sibling head))
                           (gamebegin_node tree),
                       current_head := Some a,
                       history := Append (history tree) mv\<rparr>, gc1) \<and>
           ChildNodes head = pre @ post \<and>
           map unlink (queued gc1) = map unlink (queued gc @ post @ pre))) \<and>
     (edges (dat head) = [] \<longrightarrow>
        MakeMove Mirror Black Append a move (tree, gc) =
          Inr (tree\<lparr>gamebegin_node :=
                      assign h (Node (this head) ((dat head)\<lparr>edges := EdgeList [mv]\<rparr>)
                                  (Some (new_Node a 0)) (sibling head))
                        (gamebegin_node tree),
                    current_head := Some a,
                    history := Append (history tree) mv\<rparr>,
               AddToGcQueue (child head) gc)) \<and>
     (mv \<notin> GetMove ` set (edges (dat head)) \<and> edges (dat head) \<noteq> [] \<longrightarrow>
        MakeMove Mirror Black Append a move (tree, gc) = Inl AssertionFailed)"
proof -
  note u = MakeMove_unfold[OF hd de, of Mirror Black Append a move gc, folded mv_def]
  have A: "\<exists>gc1 pre post.
           MakeMove Mirror Black Append a move (tree, gc) =
             Inr (tree\<lparr>gamebegin_node :=
                         assign h (Node (this head) (dat head) (Some (unlink c)) (sibling head))
                           (gamebegin_node tree),
                       current_head := Some (this c),
                       history := Append (history tree) mv\<rparr>, gc1) \<and>
           ChildNodes head = pre @ c # post \<and>
           map unlink (queued gc1) = map unlink (queued gc @ post @ pre)"
    if "first_edge mv (edges (dat head)) i"
      and "find (\<lambda>c. index (dat c) = i) (ChildNodes head) = Some c" for i c
  proof -
    from advance_head_existing[OF that di, of a gc] obtain gc1 pre post where
      "advance_head a mv (head, gc) =
         Inr (Node (this head) (dat head) (Some (unlink c)) (sibling head), gc1, this c)"
      and r: "ChildNodes head = pre @ c # post"
         "map unlink (queued gc1) = map unlink (queued gc @ post @ pre)"
      by blast
    then have "MakeMove Mirror Black Append a move (tree, gc) =
             Inr (tree\<lparr>gamebegin_node :=
                         assign h (Node (this head) (dat head) (Some (unlink c)) (sibling head))
                           (gamebegin_node tree),
                       current_head := Some (this c),
                       history := Append (history tree) mv\<rparr>, gc1)"
      by (simp add: u)
    with r show ?thesis by blast
  qed
  have B: "\<exists>gc1 pre post.
           MakeMove Mirror Black Append a move (tree, gc) =
             Inr (tree\<lparr>gamebegin_node :=
                         assign h (Node (this head) (dat head) (Some (new_Node a i)) (sibling head))
                           (gamebegin_node tree),
                       current_head := Some a,
                       history := Append (history tree) mv\<rparr>, gc1) \<and>
           ChildNodes head = pre @ post \<and>
           map unlink (queued gc1) = map unlink (queued gc @ post @ pre)"
    if "first_edge mv (edges (dat head)) i"
      and "find (\<lambda>c. index (dat c) = i) (ChildNodes head) = None" for i
  proof -
    from advance_head_spawn[OF that fr, of gc] obtain gc1 pre post where
      "advance_head a mv (head, gc) =
         Inr (Node (this head) (dat head) (Some (new_Node a i)) (sibling head), gc1, a)"
      and r: "ChildNodes head = pre @ post"
         "map unlink (queued gc1) = map unlink (queued gc @ post @ pre)"
      by blast
    then have "MakeMove Mirror Black Append a move (tree, gc) =
             Inr (tree\<lparr>gamebegin_node :=
                         assign h (Node (this head) (dat head) (Some (new_Node a i)) (sibling head))
                           (gamebegin_node tree),
                       current_head := Some a,
                       history := Append (history tree) mv\<rparr>, gc1)"
      by (simp add: u)
    with r show ?thesis by blast
  qed
  have C: "MakeMove Mirror Black Append a move (tree, gc) =
          Inr (tree\<lparr>gamebegin_node :=
                      assign h (Node (this head) ((dat head)\<lparr>edges := EdgeList [mv]\<rparr>)
                                  (Some (new_Node a 0)) (sibling head))
                        (gamebegin_node tree),
                    current_head := Some a,
                    history := Append (history tree) mv\<rparr>,
               AddToGcQueue (child head) gc)"
    if "edges (dat head) = []"
    by (simp add: u advance_head_unexpanded[OF that])
  have D: "MakeMove Mirror Black Append a move (tree, gc) = Inl AssertionFailed"
    if "mv \<notin> GetMove ` set (edges (dat head))" and "edges (dat head) \<noteq> []"
    by (simp add: u advance_head_assert[OF that])
  from A B C D show ?thesis by blast
qed

theorem MakeMove_effect_witness:
  "MakeMove (\<lambda>m. 89 - m) (\<lambda>h. odd (length h)) (\<lambda>h m. h @ [m]) 9 7 (example_tree example_head [], []) =
     Inr (\<lparr>gamebegin_node =
             Some (Node 1 (new_NodeData 0\<lparr>edges := EdgeList [3, 5, 7]\<rparr>)
                     (Some (Node 3 (new_NodeData 2\<lparr>GetN := 6\<rparr>) None None)) None),
           current_head = Some 3, history = [7]\<rparr>,
          [Node 2 (new_NodeData 0\<lparr>GetN := 4\<rparr>) None None]) \<and>
   MakeMove (\<lambda>m. 89 - m) (\<lambda>h. odd (length h)) (\<lambda>h m. h @ [m]) 9 5 (example_tree example_head [], []) =
     Inr (\<lparr>gamebegin_node =
             Some (Node 1 (new_NodeData 0\<lparr>edges := EdgeList [3, 5, 7]\<rparr>) (Some (new_Node 9 1)) None),
           current_head = Some 9, history = [5]\<rparr>,
          [Node 3 (new_NodeData 2\<lparr>GetN := 6\<rparr>) None None,
           Node 2 (new_NodeData 0\<lparr>GetN := 4\<rparr>) None None]) \<and>
   MakeMove (\<lambda>m. 89 - m) (\<lambda>h. odd (length h)) (\<lambda>h m. h @ [m]) 9 4 (example_tree (new_Node 1 0) [7], []) =
     Inr (\<lparr>gamebegin_node =
             Some (Node 1 (new_NodeData 0\<lparr>edges := EdgeList [85]\<rparr>) (Some (new_Node 9 0)) None),
           current_head = Some 9, history = [7, 85]\<rparr>, []) \<and>
   MakeMove (\<lambda>m. 89 - m) (\<lambda>h. odd (length h)) (\<lambda>h m. h @ [m]) 9 4 (example_tree example_head [], []) =
     Inl AssertionFailed"
  using MakeMove_effect
          [where Mirror = "\<lambda>m. 89 - m" and Black = "\<lambda>h. odd (length h)" and
             Append = "\<lambda>h m. h @ [m]" and a = 9 and move = 7 and h = 1 and gc = "[]" and
             tree = "example_tree example_head []" and head = example_head]
        MakeMove_effect
          [where Mirror = "\<lambda>m. 89 - m" and Black = "\<lambda>h. odd (length h)" and
             Append = "\<lambda>h m. h @ [m]" and a = 9 and move = 5 and h = 1 and gc = "[]" and
             tree = "example_tree example_head []" and head = example_head]
        MakeMove_effect
          [where Mirror = "\<lambda>m. 89 - m" and Black = "\<lambda>h. odd (length h)" and
             Append = "\<lambda>h m. h @ [m]" and a = 9 and move = 4 and h = 1 and gc = "[]" and
             tree = "example_tree (new_Node 1 0) [7]" and head = "new_Node 1 0"]
        MakeMove_effect
          [where Mirror = "\<lambda>m. 89 - m" and Black = "\<lambda>h. odd (length h)" and
             Append = "\<lambda>h m. h @ [m]" and a = 9 and move = 4 and h = 1 and gc = "[]" and
             tree = "example_tree example_head []" and head = example_head]
  by (simp add: example_tree_def example_head_def MakeMove_def advance_head_def Edges_def
        ChildNodes_def EdgeList_def GetOrSpawnNode_def ReleaseChildrenExceptOne_def
        CreateSingleChildNode_def AddToGcQueue_def new_Node_def new_NodeData_def upt_rec
        numeral_eq_Suc)

text \<open>
  C3. The claim has \<^verbatim>\<open>MakeMove\<close> create and adopt a fresh singleton child whenever no edge
  of the head carries the move. On an expanded head the code does not get there: with
  the edges 3, 5 and 7 and the move 4, no edge matches, the children are released, and
  \<^verbatim>\<open>CreateSingleChildNode\<close>, which \<^verbatim>\<open>MakeMove\<close> calls on this path without looking at the
  edges, fails its own assertion that the node has none.
\<close>

theorem MakeMove_unknown_move_assertion:
  "4 \<notin> GetMove ` set (edges (dat example_head)) \<and>
   edges (dat example_head) \<noteq> [] \<and>
   current_head (example_tree example_head []) = Some 1 \<and>
   deref 1 (gamebegin_node (example_tree example_head [])) = Some example_head \<and>
   MakeMove (\<lambda>m. 89 - m) (\<lambda>h. odd (length h)) (\<lambda>h m. h @ [m]) 9 4 (example_tree example_head [], []) =
     Inl AssertionFailed"
  by (simp add: example_tree_def example_head_def MakeMove_def advance_head_def Edges_def
        ChildNodes_def EdgeList_def ReleaseChildrenExceptOne_def CreateSingleChildNode_def
        AddToGcQueue_def new_NodeData_def upt_rec numeral_eq_Suc)

end
